theory Spec2Isabelle
  imports Complex_Main "HOL-Library.Word"
begin

section \<open>JavaScript strings\<close>

text \<open>
  A JavaScript string is a sequence of UTF-16 code units. String literals of the source
  are ASCII; \<open>js\<close> turns such a literal into its code units.
\<close>

type_synonym jsstring = "16 word list"

definition js :: "string \<Rightarrow> jsstring" where
  "js s = map (\<lambda>c. of_nat (of_char c)) s"

text \<open>
  \<open>String.prototype.trim\<close> removes white space and line terminators from both ends
  (ECMAScript: TAB, VT, FF, SP, NBSP, ZWNBSP and the other space separators; LF, CR, LS, PS).
\<close>

definition is_ws :: "16 word \<Rightarrow> bool" where
  "is_ws c \<longleftrightarrow>
     c = 0x0009 \<or> c = 0x000A \<or> c = 0x000B \<or> c = 0x000C \<or> c = 0x000D \<or> c = 0x0020 \<or>
     c = 0x00A0 \<or> c = 0x1680 \<or> (0x2000 \<le> c \<and> c \<le> 0x200A) \<or> c = 0x2028 \<or>
     c = 0x2029 \<or> c = 0x202F \<or> c = 0x205F \<or> c = 0x3000 \<or> c = 0xFEFF"

definition trim :: "jsstring \<Rightarrow> jsstring" where
  "trim s = rev (dropWhile is_ws (rev (dropWhile is_ws s)))"

section \<open>The data the front end holds\<close>

text \<open>
  A note as the backend returns it (\<open>App\<close>: "the newly created note object with id,
  content, position"). A field the object lacks (or holds as \<open>null\<close>) is \<open>None\<close>;
  \<open>position\<close>, when present, is an array of numbers.
\<close>

record jsnote =
  note_id :: "nat option"
  content :: jsstring
  position :: "real list option"

text \<open>
  The error axios rejects with. \<open>response_data_error\<close> is what
  \<open>error.response?.data?.error\<close> reads: \<open>None\<close> when the chain ends in
  \<open>undefined\<close>, else the backend's error text.
\<close>

record axios_error =
  response_data_error :: "jsstring option"
  message :: jsstring

text \<open>What a handler does to the outside world, in the order it does it.\<close>

datatype effect =
    HttpGet string
  | HttpPost string jsstring
  | ConsoleError jsstring axios_error
  | Alert jsstring

text \<open>How the promise of an \<open>async\<close> function settles.\<close>

datatype settlement = Fulfilled | Rejected axios_error

text \<open>
  One run of a handler of \<open>App\<close>: how its promise settled, the \<open>notes\<close> state
  after it, and the effects it had.
\<close>

record outcome =
  settled :: settlement
  "notes" :: "jsnote list"
  effects :: "effect list"

section \<open>App\<close>

definition API_URL :: string where
  "API_URL = ''http://localhost:5001/api''"

text \<open>
  \<open>fetchNotes\<close>. The argument \<open>get\<close> is how \<open>axios.get\<close> settles: \<open>Inl\<close> the
  error it rejects with, \<open>Inr\<close> the \<open>data\<close> of its response, \<open>None\<close> when that is
  falsy (\<open>response.data || []\<close>).
\<close>

definition fetchNotes :: "(axios_error + jsnote list option) \<Rightarrow> jsnote list \<Rightarrow> outcome" where
  "fetchNotes get prevNotes =
     (case get of
        Inr data \<Rightarrow>
          \<lparr>settled = Fulfilled,
           notes = (case data of Some ns \<Rightarrow> ns | None \<Rightarrow> []),
           effects = [HttpGet (API_URL @ ''/notes'')]\<rparr>
      | Inl error \<Rightarrow>
          \<lparr>settled = Fulfilled,
           notes = [],
           effects = [HttpGet (API_URL @ ''/notes''),
                      ConsoleError (js ''Error fetching notes:'') error]\<rparr>)"

text \<open>
  \<open>handleSaveNote\<close>. The argument \<open>post\<close> is how \<open>axios.post\<close> settles for a given
  content: \<open>Inl\<close> the error it rejects with, \<open>Inr\<close> the \<open>data\<close> of its response, the
  created note.
\<close>

definition failure_text :: "axios_error \<Rightarrow> jsstring" where
  "failure_text error =
     (case response_data_error error of
        Some e \<Rightarrow> if e \<noteq> [] then e else message error
      | None \<Rightarrow> message error)"

definition handleSaveNote ::
  "(jsstring \<Rightarrow> axios_error + jsnote) \<Rightarrow> jsstring \<Rightarrow> jsnote list \<Rightarrow> outcome" where
  "handleSaveNote post cont prevNotes =
     (if trim cont = [] then
        \<lparr>settled = Fulfilled,
         notes = prevNotes,
         effects = [Alert (js ''Note content cannot be empty.'')]\<rparr>
      else
        (case post cont of
           Inr data \<Rightarrow>
             \<lparr>settled = Fulfilled,
              notes = prevNotes @ [data],
              effects = [HttpPost (API_URL @ ''/notes'') cont]\<rparr>
         | Inl error \<Rightarrow>
             \<lparr>settled = Fulfilled,
              notes = prevNotes,
              effects = [HttpPost (API_URL @ ''/notes'') cont,
                         ConsoleError (js ''Error saving note:'') error,
                         Alert (js ''Failed to save note: '' @ failure_text error)]\<rparr>))"

section \<open>NoteVisualizer\<close>

text \<open>
  One \<open>Box\<close> element of the scene, with the props the component gives it.
\<close>

record box =
  key :: "nat option"
  box_position :: "real list"
  args :: "real list"

text \<open>
  The children the component puts on the canvas for its \<open>notes\<close> prop
  (\<open>notes && notes.map(...)\<close>): nothing for a missing prop (\<open>None\<close>), one \<open>Box\<close> per
  note otherwise, placed at \<open>note.position || [0, 0, 0]\<close>.
\<close>

definition NoteVisualizer :: "jsnote list option \<Rightarrow> box list" where
  "NoteVisualizer notes_prop =
     (case notes_prop of
        None \<Rightarrow> []
      | Some ns \<Rightarrow>
          map (\<lambda>n. \<lparr>key = note_id n,
                     box_position = (case position n of Some p \<Rightarrow> p | None \<Rightarrow> [0, 0, 0]),
                     args = [0.5, 0.5, 0.5]\<rparr>) ns)"

section \<open>The positioning pipeline\<close>

text \<open>
  The front end only posts contents and draws what comes back. The pipeline that embeds,
  indexes and places documents runs behind \<open>API_URL\<close> and is not among the source
  files; each definition of this section follows the specification's description of it.
\<close>

type_synonym docId = nat

type_synonym vec = "real list"

text \<open>
  Modelled from the spec: the error taxonomy of the pipeline (section 7), which is not in
  the source files.
\<close>

datatype pipeline_error =
  InvalidInput | StaleWrite | ProjectionDegenerate | BudgetExceeded | StoreUnavailable

text \<open>
  Modelled from the spec: the Embedding Provider's \<open>embed(text) -> vector\<close> (4.1), which
  is not in the source files. The pretrained encoder is a parameter; "empty or
  whitespace-only text is rejected with an InvalidInput error".
\<close>

definition embed :: "(jsstring \<Rightarrow> vec) \<Rightarrow> jsstring \<Rightarrow> pipeline_error + vec" where
  "embed encoder txt = (if list_all is_ws txt then Inl InvalidInput else Inr (encoder txt))"

text \<open>
  Modelled from the spec: the Embedding Record (section 3) of the absent Vector Store:
  document id, vector, content hash at the time of embedding. The generation timestamp is
  left out: no operation below reads it.
\<close>

record embedding_record =
  er_docId :: docId
  er_vector :: vec
  er_contentHash :: nat

text \<open>
  Modelled from the spec: the Vector Store's \<open>upsert\<close> (4.2), not in the source files.
  The store holds the latest record of each document id: a record replaces the one of the
  same id, where it stood, or is added at the end.
\<close>

fun upsert :: "embedding_record \<Rightarrow> embedding_record list \<Rightarrow> embedding_record list" where
  "upsert r [] = [r]"
| "upsert r (s # ss) = (if er_docId s = er_docId r then r # ss else s # upsert r ss)"

text \<open>
  Modelled from the spec: the Vector Store's \<open>get(docId) -> Embedding Record | absent\<close>
  (4.2), not in the source files.
\<close>

definition get :: "docId \<Rightarrow> embedding_record list \<Rightarrow> embedding_record option" where
  "get d st = find (\<lambda>r. er_docId r = d) st"

text \<open>
  Modelled from the spec: the Vector Store's \<open>remove(docId)\<close> (4.2), not in the source
  files.
\<close>

definition remove :: "docId \<Rightarrow> embedding_record list \<Rightarrow> embedding_record list" where
  "remove d st = filter (\<lambda>r. er_docId r \<noteq> d) st"

text \<open>
  Modelled from the spec: the Vector Store's \<open>allEmbeddings()\<close> (4.2), the full-corpus
  iteration; not in the source files.
\<close>

definition allEmbeddings :: "embedding_record list \<Rightarrow> embedding_record list" where
  "allEmbeddings st = st"

text \<open>
  Modelled from the spec: cosine similarity, the reference metric of the absent Similarity
  Index (4.3). A zero vector has no direction; its score with anything is taken as 0.
\<close>

definition dot :: "vec \<Rightarrow> vec \<Rightarrow> real" where
  "dot u v = sum_list (map (\<lambda>(p, q). p * q) (zip u v))"

definition cosine :: "vec \<Rightarrow> vec \<Rightarrow> real" where
  "cosine u v =
     (if dot u u = 0 \<or> dot v v = 0 then 0
      else dot u v / (sqrt (dot u u) * sqrt (dot v v)))"

text \<open>
  Modelled from the spec: the Similarity Edge (section 3, and \<open>edges: [{a, b, score}]\<close> of
  section 6) of the absent Similarity Index.
\<close>

record edge =
  edge_a :: docId
  edge_b :: docId
  edge_score :: real

text \<open>
  Modelled from the spec: the unordered pairs of the embedding set that the absent
  Similarity Index scores, each pair once.
\<close>

fun pairs :: "'a list \<Rightarrow> ('a \<times> 'a) list" where
  "pairs [] = []"
| "pairs (x # xs) = map (Pair x) xs @ pairs xs"

text \<open>
  Modelled from the spec: the Similarity Index's \<open>edgesAbove(threshold)\<close> (4.3), not in
  the source files. Given the full embedding set, an edge is "present only if score exceeds
  the connection threshold"; the metric is a parameter ("depending on metric").
\<close>

definition edgesAbove ::
  "(vec \<Rightarrow> vec \<Rightarrow> real) \<Rightarrow> embedding_record list \<Rightarrow> real \<Rightarrow> edge list" where
  "edgesAbove metric recs threshold =
     map (\<lambda>(r, s). \<lparr>edge_a = er_docId r, edge_b = er_docId s,
                     edge_score = metric (er_vector r) (er_vector s)\<rparr>)
       (filter (\<lambda>(r, s). metric (er_vector r) (er_vector s) > threshold) (pairs recs))"

text \<open>
  Modelled from the spec: a point of the published layout, \<open>{docId, x, y}\<close> (section 6);
  the absent Projection Engine makes them.
\<close>

record layout_point =
  pt_docId :: docId
  pt_x :: real
  pt_y :: real

text \<open>
  Modelled from the spec: the Layout Snapshot
  \<open>{ points: [{docId, x, y}], edges: [{a, b, score}], version }\<close> (sections 3 and 6) that
  the absent Update Coordinator publishes.
\<close>

record layout_snapshot =
  points :: "layout_point list"
  edges :: "edge list"
  version :: nat

text \<open>
  Modelled from the spec: the configuration values of section 6, read by the absent
  pipeline.
\<close>

record config =
  similarityThreshold :: real
  maxLatencyMs :: int
  rebuildTriggerEditCount :: int

text \<open>
  Modelled from the spec: what the absent pipeline is built from and the specification
  leaves open: the pretrained encoder, the similarity metric, the Projection Engine's
  placement of a document (from the layout kept so far and the current embedding set),
  and the configuration.
\<close>

record components =
  encoder :: "jsstring \<Rightarrow> vec"
  metric :: "vec \<Rightarrow> vec \<Rightarrow> real"
  project :: "layout_point list \<Rightarrow> embedding_record list \<Rightarrow> docId \<Rightarrow> real \<times> real"
  settings :: config

text \<open>
  Modelled from the spec: one run of the absent Projection Engine (4.4). Layout points are
  "one per currently-known document", in 1:1 correspondence with the embedding records;
  with fewer than 2 documents the placement is the fixed default, the origin.
\<close>

definition relayout ::
  "(layout_point list \<Rightarrow> embedding_record list \<Rightarrow> docId \<Rightarrow> real \<times> real) \<Rightarrow>
   layout_point list \<Rightarrow> embedding_record list \<Rightarrow> layout_point list" where
  "relayout proj lay recs =
     (if length recs < 2 then
        map (\<lambda>r. \<lparr>pt_docId = er_docId r, pt_x = 0, pt_y = 0\<rparr>) recs
      else
        map (\<lambda>r. \<lparr>pt_docId = er_docId r,
                   pt_x = fst (proj lay recs (er_docId r)),
                   pt_y = snd (proj lay recs (er_docId r))\<rparr>) recs)"

text \<open>
  Modelled from the spec: the state the absent Update Coordinator guards under its
  single-writer discipline (section 5): the embedding set, the persistent layout, the
  version counter, and the snapshots published so far, oldest first.
\<close>

record coordinator =
  store :: "embedding_record list"
  layout :: "layout_point list"
  last_version :: nat
  published :: "layout_snapshot list"

definition initial :: coordinator where
  "initial = \<lparr>store = [], layout = [], last_version = 0, published = []\<rparr>"

text \<open>
  Modelled from the spec: the last steps of a pipeline run of the absent Update Coordinator
  (4.5), \<open>Indexing\<close>, \<open>Projecting\<close>, \<open>Published\<close>: both engines read the same embedding
  set, and "terminal state Published emits a new Layout Snapshot version".
\<close>

definition publish :: "components \<Rightarrow> coordinator \<Rightarrow> coordinator" where
  "publish c st =
     (let recs = allEmbeddings (store st);
          lay = relayout (project c) (layout st) recs;
          v = Suc (last_version st)
      in st\<lparr>layout := lay,
            last_version := v,
            published := published st @
              [\<lparr>points = lay,
                edges = edgesAbove (metric c) recs (similarityThreshold (settings c)),
                version = v\<rparr>]\<rparr>)"

text \<open>
  Modelled from the spec: the inbound \<open>onDocumentChanged(docId, content, contentHash)\<close>
  (section 6) of the absent Update Coordinator: \<open>Received\<close>, \<open>Embedding\<close>, the Vector
  Store write, then the rest of the run. An \<open>InvalidInput\<close> of \<open>embed\<close> goes to the
  caller and nothing is written.
\<close>

definition onDocumentChanged ::
  "components \<Rightarrow> docId \<Rightarrow> jsstring \<Rightarrow> nat \<Rightarrow> coordinator \<Rightarrow> pipeline_error + coordinator" where
  "onDocumentChanged c d cont contentHash st =
     (case embed (encoder c) cont of
        Inl e \<Rightarrow> Inl e
      | Inr v \<Rightarrow>
          Inr (publish c
            (st\<lparr>store := upsert \<lparr>er_docId = d, er_vector = v, er_contentHash = contentHash\<rparr>
                             (store st)\<rparr>)))"

text \<open>
  Modelled from the spec: the inbound \<open>onDocumentDeleted(docId)\<close> (section 6) of the absent
  Update Coordinator: "deletion of a Document removes both" its record and its point.
\<close>

definition onDocumentDeleted :: "components \<Rightarrow> docId \<Rightarrow> coordinator \<Rightarrow> coordinator" where
  "onDocumentDeleted c d st = publish c (st\<lparr>store := remove d (store st)\<rparr>)"

text \<open>
  Modelled from the spec: the change events the absent Update Coordinator takes from its
  queue, one at a time; an event whose run fails leaves the state as it was.
\<close>

datatype change_event = DocumentChanged docId jsstring nat | DocumentDeleted docId

definition handle_event :: "components \<Rightarrow> coordinator \<Rightarrow> change_event \<Rightarrow> coordinator" where
  "handle_event c st ev =
     (case ev of
        DocumentChanged d cont h \<Rightarrow>
          (case onDocumentChanged c d cont h st of Inl e \<Rightarrow> st | Inr st' \<Rightarrow> st')
      | DocumentDeleted d \<Rightarrow> onDocumentDeleted c d st)"

definition run :: "components \<Rightarrow> change_event list \<Rightarrow> coordinator \<Rightarrow> coordinator" where
  "run c evs st = foldl (handle_event c) st evs"

text \<open>
  The invariants carried along a run: every published snapshot is consistent, and the
  published versions increase and stay at or below the counter.
\<close>

definition consistent :: "layout_snapshot \<Rightarrow> bool" where
  "consistent s =
     list_all (\<lambda>e. edge_a e \<in> set (map pt_docId (points s)) \<and>
                    edge_b e \<in> set (map pt_docId (points s))) (edges s)"

definition versions_ok :: "coordinator \<Rightarrow> bool" where
  "versions_ok st \<longleftrightarrow>
     sorted_wrt (<) (map version (published st)) \<and>
     list_all (\<lambda>s. version s \<le> last_version st) (published st)"

text \<open>
  The parts used to run the pipeline on concrete events: an encoder that tells texts
  apart by their first letter, the cosine metric, documents placed by their id, and the
  reference threshold 0.7.
\<close>

definition sample_components :: components where
  "sample_components =
     \<lparr>encoder = (\<lambda>t. if take 1 t = js ''h'' then [1, 0] else [0, 1]),
      metric = cosine,
      project = (\<lambda>lay recs d. (real d, 0)),
      settings = \<lparr>similarityThreshold = 7 / 10, maxLatencyMs = 200,
                  rebuildTriggerEditCount = 50\<rparr>\<rparr>"

definition sample_events :: "change_event list" where
  "sample_events =
     [DocumentChanged 1 (js ''hiking'') 11,
      DocumentChanged 2 (js ''hills'') 12,
      DocumentChanged 3 [0x0020] 13,
      DocumentChanged 4 (js ''tax'') 14,
      DocumentDeleted 1]"

section \<open>Properties of the front end\<close>

lemma dropWhile_all_iff:
  "(\<forall>x \<in> set (dropWhile P xs). P x) \<longleftrightarrow> (\<forall>x \<in> set xs. P x)"
proof
  assume a: "\<forall>x \<in> set (dropWhile P xs). P x"
  have "dropWhile P xs = []"
  proof (rule ccontr)
    assume ne: "dropWhile P xs \<noteq> []"
    then have "\<not> P (hd (dropWhile P xs))" by (rule hd_dropWhile)
    moreover have "hd (dropWhile P xs) \<in> set (dropWhile P xs)" using ne by simp
    ultimately show False using a by blast
  qed
  then show "\<forall>x \<in> set xs. P x" by (simp add: dropWhile_eq_Nil_conv)
next
  assume "\<forall>x \<in> set xs. P x"
  then show "\<forall>x \<in> set (dropWhile P xs). P x" by (meson set_dropWhileD)
qed

lemma trim_empty_iff: "trim s = [] \<longleftrightarrow> (\<forall>c \<in> set s. is_ws c)"
  by (simp add: trim_def dropWhile_eq_Nil_conv dropWhile_all_iff)

text \<open>
  The guard of \<open>handleSaveNote\<close>: content that is empty or all white space never leaves
  the handler. No request is sent, the notes held stay as they are, and the user is shown
  the alert.
\<close>

lemma handleSaveNote_blank_guard:
  assumes "\<forall>c \<in> set cont. is_ws c"
  shows "handleSaveNote post cont prevNotes =
           \<lparr>settled = Fulfilled,
            notes = prevNotes,
            effects = [Alert (js ''Note content cannot be empty.'')]\<rparr>"
  using assms by (simp add: handleSaveNote_def trim_empty_iff)

text \<open>
  C10. A successful save (the content is not blank and the request is answered with the
  created note) leaves the \<open>notes\<close> state as the previous list followed by exactly that
  note: one entry more, every earlier entry where it was and as it was.
\<close>

theorem handleSaveNote_appends:
  assumes "trim cont \<noteq> []" and "post cont = Inr created"
  shows "notes (handleSaveNote post cont prevNotes) = prevNotes @ [created]
       \<and> length (notes (handleSaveNote post cont prevNotes)) = Suc (length prevNotes)
       \<and> take (length prevNotes) (notes (handleSaveNote post cont prevNotes)) = prevNotes
       \<and> last (notes (handleSaveNote post cont prevNotes)) = created"
  using assms by (simp add: handleSaveNote_def)

theorem handleSaveNote_appends_witness:
  "trim (js ''hi'') \<noteq> []
   \<and> notes (handleSaveNote (\<lambda>c. Inr \<lparr>note_id = Some 2, content = c, position = None\<rparr>)
        (js ''hi'') [\<lparr>note_id = Some 1, content = js ''a'', position = Some [1, 2, 0]\<rparr>])
     = [\<lparr>note_id = Some 1, content = js ''a'', position = Some [1, 2, 0]\<rparr>,
        \<lparr>note_id = Some 2, content = js ''hi'', position = None\<rparr>]"
proof -
  have blank: "trim (js ''hi'') \<noteq> []"
    by (simp add: trim_def js_def is_ws_def)
  show ?thesis
    using blank
      handleSaveNote_appends [of "js ''hi''"
        "\<lambda>c. Inr \<lparr>note_id = Some 2, content = c, position = None\<rparr>"
        "\<lparr>note_id = Some 2, content = js ''hi'', position = None\<rparr>"
        "[\<lparr>note_id = Some 1, content = js ''a'', position = Some [1, 2, 0]\<rparr>]"]
    by simp
qed

text \<open>
  C8. When the request for the notes collection is rejected, \<open>fetchNotes\<close> still settles
  normally and sets the \<open>notes\<close> state to the empty list, whatever it held before; the
  visualizer given that state puts no node on the canvas.
\<close>

theorem fetchNotes_failure_empty:
  "settled (fetchNotes (Inl error) prevNotes) = Fulfilled
   \<and> notes (fetchNotes (Inl error) prevNotes) = []
   \<and> NoteVisualizer (Some (notes (fetchNotes (Inl error) prevNotes))) = []"
  by (simp add: fetchNotes_def NoteVisualizer_def)

text \<open>
  C9. The visualizer renders the notes one for one and in order: the keys of the nodes are
  the ids of the notes, so there are as many nodes as notes, and the node of a note that
  has no position stands at the origin \<open>[0, 0, 0]\<close>.
\<close>

theorem NoteVisualizer_one_node_per_note:
  "map key (NoteVisualizer (Some ns)) = map note_id ns
   \<and> length (NoteVisualizer (Some ns)) = length ns
   \<and> (\<forall>i < length ns. position (ns ! i) = None \<longrightarrow>
          box_position (NoteVisualizer (Some ns) ! i) = [0, 0, 0])"
  by (simp add: NoteVisualizer_def comp_def)

theorem NoteVisualizer_one_node_per_note_witness:
  "map key (NoteVisualizer (Some [\<lparr>note_id = Some 1, content = js ''a'', position = None\<rparr>,
                                  \<lparr>note_id = Some 2, content = js ''b'', position = Some [4, 5, 6]\<rparr>]))
     = [Some 1, Some 2]
   \<and> position ([\<lparr>note_id = Some 1, content = js ''a'', position = None\<rparr>,
                 \<lparr>note_id = Some 2, content = js ''b'', position = Some [4, 5, 6]\<rparr>] ! 0) = None
   \<and> box_position (NoteVisualizer (Some [\<lparr>note_id = Some 1, content = js ''a'', position = None\<rparr>,
                       \<lparr>note_id = Some 2, content = js ''b'', position = Some [4, 5, 6]\<rparr>]) ! 0)
     = [0, 0, 0]"
  using NoteVisualizer_one_node_per_note
    [of "[\<lparr>note_id = Some 1, content = js ''a'', position = None\<rparr>,
          \<lparr>note_id = Some 2, content = js ''b'', position = Some [4, 5, 6]\<rparr>]"]
  by simp

section \<open>Properties of the positioning pipeline\<close>

lemma filter_mono_set: "(\<And>x. P x \<Longrightarrow> Q x) \<Longrightarrow> set (filter P xs) \<subseteq> set (filter Q xs)"
  by auto

lemma filter_mono_length:
  "(\<And>x. P x \<Longrightarrow> Q x) \<Longrightarrow> length (filter P xs) \<le> length (filter Q xs)"
  by (induction xs) auto

lemma sqrt25: "sqrt 25 = 5"
  by (rule real_sqrt_unique) simp_all

lemma set_pairs: "(p, q) \<in> set (pairs xs) \<Longrightarrow> p \<in> set xs \<and> q \<in> set xs"
  by (induction xs) auto

lemma edgesAbove_endpoints:
  assumes "e \<in> set (edgesAbove m recs t)"
  shows "edge_a e \<in> er_docId ` set recs \<and> edge_b e \<in> er_docId ` set recs"
proof -
  from assms obtain r s where rs: "(r, s) \<in> set (pairs recs)"
    and e: "e = \<lparr>edge_a = er_docId r, edge_b = er_docId s,
                  edge_score = m (er_vector r) (er_vector s)\<rparr>"
    by (auto simp: edgesAbove_def)
  from rs have "r \<in> set recs \<and> s \<in> set recs" by (rule set_pairs)
  with e show ?thesis by simp
qed

lemma relayout_ids: "map pt_docId (relayout proj lay recs) = map er_docId recs"
  by (simp add: relayout_def comp_def)

lemma publish_consistent:
  assumes "list_all consistent (published st)"
  shows "list_all consistent (published (publish c st))"
proof -
  let ?recs = "allEmbeddings (store st)"
  let ?snap = "\<lparr>points = relayout (project c) (layout st) ?recs,
                edges = edgesAbove (metric c) ?recs (similarityThreshold (settings c)),
                version = Suc (last_version st)\<rparr>"
  have "consistent ?snap"
    unfolding consistent_def list_all_iff
    using edgesAbove_endpoints [of _ "metric c" ?recs "similarityThreshold (settings c)"]
    by (simp add: relayout_ids)
  moreover have "published (publish c st) = published st @ [?snap]"
    by (simp add: publish_def Let_def)
  ultimately show ?thesis using assms by simp
qed

lemma handle_event_consistent:
  assumes "list_all consistent (published st)"
  shows "list_all consistent (published (handle_event c st ev))"
proof (cases ev)
  case (DocumentChanged d cont h)
  show ?thesis
  proof (cases "embed (encoder c) cont")
    case (Inl e)
    then show ?thesis using assms DocumentChanged
      by (simp add: handle_event_def onDocumentChanged_def)
  next
    case (Inr v)
    let ?st = "st\<lparr>store := upsert \<lparr>er_docId = d, er_vector = v, er_contentHash = h\<rparr> (store st)\<rparr>"
    have "list_all consistent (published ?st)"
      using assms by simp
    then have "list_all consistent (published (publish c ?st))"
      by (rule publish_consistent)
    then show ?thesis using Inr DocumentChanged
      by (simp add: handle_event_def onDocumentChanged_def)
  qed
next
  case (DocumentDeleted d)
  have "list_all consistent (published (st\<lparr>store := remove d (store st)\<rparr>))"
    using assms by simp
  then have "list_all consistent (published (publish c (st\<lparr>store := remove d (store st)\<rparr>)))"
    by (rule publish_consistent)
  then show ?thesis using DocumentDeleted
    by (simp add: handle_event_def onDocumentDeleted_def)
qed

lemma run_consistent:
  "list_all consistent (published st) \<Longrightarrow> list_all consistent (published (run c evs st))"
  unfolding run_def
  by (induction evs arbitrary: st) (simp_all add: handle_event_consistent)

lemma publish_versions_ok:
  assumes "versions_ok st"
  shows "versions_ok (publish c st)"
  using assms
  by (auto simp: versions_ok_def publish_def Let_def sorted_wrt_append list_all_iff)

lemma versions_ok_store: "versions_ok (st\<lparr>store := s\<rparr>) = versions_ok st"
  by (simp add: versions_ok_def)

lemma handle_event_versions_ok:
  assumes "versions_ok st"
  shows "versions_ok (handle_event c st ev)"
  using assms
  by (auto simp: handle_event_def onDocumentChanged_def onDocumentDeleted_def
        publish_versions_ok versions_ok_store split: change_event.split sum.split)

lemma run_versions_ok: "versions_ok st \<Longrightarrow> versions_ok (run c evs st)"
  unfolding run_def
  by (induction evs arbitrary: st) (simp_all add: handle_event_versions_ok)

text \<open>
  The sample run: two notes on hiking, a blank text that is refused, a note on taxes, and
  the deletion of the first note.
\<close>

lemma sample_run:
  "published (run sample_components sample_events initial) =
     [\<lparr>points = [\<lparr>pt_docId = 1, pt_x = 0, pt_y = 0\<rparr>], edges = [], version = 1\<rparr>,
      \<lparr>points = [\<lparr>pt_docId = 1, pt_x = 1, pt_y = 0\<rparr>, \<lparr>pt_docId = 2, pt_x = 2, pt_y = 0\<rparr>],
        edges = [\<lparr>edge_a = 1, edge_b = 2, edge_score = 1\<rparr>], version = 2\<rparr>,
      \<lparr>points = [\<lparr>pt_docId = 1, pt_x = 1, pt_y = 0\<rparr>, \<lparr>pt_docId = 2, pt_x = 2, pt_y = 0\<rparr>,
                  \<lparr>pt_docId = 4, pt_x = 4, pt_y = 0\<rparr>],
        edges = [\<lparr>edge_a = 1, edge_b = 2, edge_score = 1\<rparr>], version = 3\<rparr>,
      \<lparr>points = [\<lparr>pt_docId = 2, pt_x = 2, pt_y = 0\<rparr>, \<lparr>pt_docId = 4, pt_x = 4, pt_y = 0\<rparr>],
        edges = [], version = 4\<rparr>]"
  by (simp add: run_def handle_event_def onDocumentChanged_def onDocumentDeleted_def
      publish_def Let_def embed_def js_def is_ws_def remove_def relayout_def edgesAbove_def
      cosine_def dot_def allEmbeddings_def initial_def sample_components_def sample_events_def)

text \<open>
  C7. Threshold monotonicity: for a fixed embedding set and metric, and thresholds
  \<open>t1 \<le> t2\<close>, every edge of \<open>edgesAbove t2\<close> is an edge of \<open>edgesAbove t1\<close>; raising the
  threshold never gives more edges.
\<close>

theorem edgesAbove_antimono:
  assumes "t1 \<le> t2"
  shows "set (edgesAbove m recs t2) \<subseteq> set (edgesAbove m recs t1)
       \<and> length (edgesAbove m recs t2) \<le> length (edgesAbove m recs t1)
       \<and> card (set (edgesAbove m recs t2)) \<le> card (set (edgesAbove m recs t1))"
proof -
  let ?P = "\<lambda>t (r, s). m (er_vector r) (er_vector s) > t"
  have imp: "\<And>x. ?P t2 x \<Longrightarrow> ?P t1 x" using assms by auto
  have sub: "set (filter (?P t2) (pairs recs)) \<subseteq> set (filter (?P t1) (pairs recs))"
    using imp by (rule filter_mono_set)
  have s: "set (edgesAbove m recs t2) \<subseteq> set (edgesAbove m recs t1)"
    unfolding edgesAbove_def set_map using sub by (rule image_mono)
  have l: "length (edgesAbove m recs t2) \<le> length (edgesAbove m recs t1)"
    unfolding edgesAbove_def length_map using imp by (rule filter_mono_length)
  have c: "card (set (edgesAbove m recs t2)) \<le> card (set (edgesAbove m recs t1))"
    using s by (simp add: card_mono)
  show ?thesis using s l c by blast
qed

theorem edgesAbove_antimono_witness:
  "(1 / 2 :: real) \<le> 7 / 10
   \<and> edgesAbove cosine [\<lparr>er_docId = 1, er_vector = [1, 0], er_contentHash = 11\<rparr>,
                         \<lparr>er_docId = 2, er_vector = [3, 4], er_contentHash = 12\<rparr>] (1 / 2)
       = [\<lparr>edge_a = 1, edge_b = 2, edge_score = 3 / 5\<rparr>]
   \<and> edgesAbove cosine [\<lparr>er_docId = 1, er_vector = [1, 0], er_contentHash = 11\<rparr>,
                         \<lparr>er_docId = 2, er_vector = [3, 4], er_contentHash = 12\<rparr>] (7 / 10)
       = []
   \<and> length (edgesAbove cosine [\<lparr>er_docId = 1, er_vector = [1, 0], er_contentHash = 11\<rparr>,
                         \<lparr>er_docId = 2, er_vector = [3, 4], er_contentHash = 12\<rparr>] (7 / 10))
       \<le> length (edgesAbove cosine [\<lparr>er_docId = 1, er_vector = [1, 0], er_contentHash = 11\<rparr>,
                         \<lparr>er_docId = 2, er_vector = [3, 4], er_contentHash = 12\<rparr>] (1 / 2))"
proof -
  have le: "(1 / 2 :: real) \<le> 7 / 10" by simp
  have lo: "edgesAbove cosine [\<lparr>er_docId = 1, er_vector = [1, 0], er_contentHash = 11\<rparr>,
                         \<lparr>er_docId = 2, er_vector = [3, 4], er_contentHash = 12\<rparr>] (1 / 2)
       = [\<lparr>edge_a = 1, edge_b = 2, edge_score = 3 / 5\<rparr>]"
    by (simp add: edgesAbove_def cosine_def dot_def sqrt25)
  have hi: "edgesAbove cosine [\<lparr>er_docId = 1, er_vector = [1, 0], er_contentHash = 11\<rparr>,
                         \<lparr>er_docId = 2, er_vector = [3, 4], er_contentHash = 12\<rparr>] (7 / 10)
       = []"
    by (simp add: edgesAbove_def cosine_def dot_def sqrt25)
  show ?thesis
    using le lo hi
      edgesAbove_antimono [OF le, of cosine
        "[\<lparr>er_docId = 1, er_vector = [1, 0], er_contentHash = 11\<rparr>,
          \<lparr>er_docId = 2, er_vector = [3, 4], er_contentHash = 12\<rparr>]"]
    by blast
qed

text \<open>
  C3. Snapshot consistency: whatever events the coordinator has run, in every snapshot it
  has published both endpoints of every edge are ids of points of that same snapshot.
\<close>

theorem published_snapshots_consistent:
  "\<forall>s \<in> set (published (run c evs initial)).
     \<forall>e \<in> set (edges s).
       edge_a e \<in> pt_docId ` set (points s) \<and> edge_b e \<in> pt_docId ` set (points s)"
proof -
  have "list_all consistent (published (run c evs initial))"
    by (rule run_consistent) (simp add: initial_def)
  then show ?thesis
    by (simp add: list_all_iff consistent_def)
qed

theorem published_snapshots_consistent_witness:
  "edges (published (run sample_components sample_events initial) ! 2)
     = [\<lparr>edge_a = 1, edge_b = 2, edge_score = 1\<rparr>]
   \<and> 1 \<in> pt_docId ` set (points (published (run sample_components sample_events initial) ! 2))
   \<and> 2 \<in> pt_docId ` set (points (published (run sample_components sample_events initial) ! 2))"
proof -
  let ?P = "published (run sample_components sample_events initial)"
  have snap: "?P ! 2 \<in> set ?P"
    by (simp add: sample_run)
  have edge: "\<lparr>edge_a = 1, edge_b = 2, edge_score = 1\<rparr> \<in> set (edges (?P ! 2))"
    by (simp add: sample_run)
  have "edge_a \<lparr>edge_a = 1, edge_b = 2, edge_score = 1\<rparr> \<in> pt_docId ` set (points (?P ! 2))
      \<and> edge_b \<lparr>edge_a = 1, edge_b = 2, edge_score = 1\<rparr> \<in> pt_docId ` set (points (?P ! 2))"
    using published_snapshots_consistent [of sample_components sample_events] snap edge
    by blast
  moreover have "edges (?P ! 2) = [\<lparr>edge_a = 1, edge_b = 2, edge_score = 1\<rparr>]"
    by (simp add: sample_run)
  ultimately show ?thesis by simp
qed

text \<open>
  C6. Version order: whatever events the coordinator has run, the versions of the
  snapshots it has published, in the order of publication, increase strictly: a snapshot
  published later never has a version less than or equal to that of an earlier one.
\<close>

theorem published_versions_increase:
  "sorted_wrt (<) (map version (published (run c evs initial)))
   \<and> (\<forall>i j. i < j \<and> j < length (published (run c evs initial)) \<longrightarrow>
         version (published (run c evs initial) ! i) < version (published (run c evs initial) ! j))"
proof -
  have "versions_ok initial" by (simp add: versions_ok_def initial_def)
  then have "versions_ok (run c evs initial)" by (rule run_versions_ok)
  then have s: "sorted_wrt (<) (map version (published (run c evs initial)))"
    by (simp add: versions_ok_def)
  then show ?thesis
    by (auto simp: sorted_wrt_iff_nth_less)
qed

theorem published_versions_increase_witness:
  "map version (published (run sample_components sample_events initial)) = [1, 2, 3, 4]
   \<and> version (published (run sample_components sample_events initial) ! 0)
       < version (published (run sample_components sample_events initial) ! 3)"
proof -
  let ?P = "published (run sample_components sample_events initial)"
  have len: "(0::nat) < 3 \<and> 3 < length ?P"
    by (simp add: sample_run)
  have "version (?P ! 0) < version (?P ! 3)"
    using published_versions_increase [of sample_components sample_events] len
    by blast
  moreover have "map version ?P = [1, 2, 3, 4]"
    by (simp add: sample_run)
  ultimately show ?thesis by simp
qed

end
